theory Spec2Isabelle
  imports Main
begin

section \<open>Python values\<close>

text \<open>
  The wrapper of \<^verbatim>\<open>arango/aql.py\<close> builds request payloads out of Python values and
  reads response bodies that were decoded from JSON. Both are modelled by one datatype:
  \<open>JNull\<close> is Python's \<^verbatim>\<open>None\<close>, a dictionary is an association list in insertion
  order (the order in which Python iterates and serialises it), numbers are integers;
  floating-point numbers are left out. A Python dictionary has every key once, and the
  operations below keep it so.
\<close>

datatype json =
    JNull
  | JBool bool
  | JInt int
  | JStr string
  | JList "json list"
  | JObj "(string \<times> json) list"

type_synonym dict = "(string \<times> json) list"

text \<open>\<^verbatim>\<open>d[k] = v\<close>: an existing key keeps its place, a new key goes to the end.\<close>

fun setitem :: "string \<Rightarrow> json \<Rightarrow> dict \<Rightarrow> dict" where
  "setitem k v [] = [(k, v)]"
| "setitem k v ((k', v') # d) = (if k' = k then (k, v) # d else (k', v') # setitem k v d)"

text \<open>\<^verbatim>\<open>d.pop(k, None)\<close>, keeping the dictionary only.\<close>

fun delitem :: "string \<Rightarrow> dict \<Rightarrow> dict" where
  "delitem k [] = []"
| "delitem k ((k', v') # d) = (if k' = k then delitem k d else (k', v') # delitem k d)"

text \<open>\<^verbatim>\<open>d.update(other)\<close>: the items of \<open>other\<close> are stored from left to right.\<close>

fun dict_update :: "dict \<Rightarrow> dict \<Rightarrow> dict" where
  "dict_update d [] = d"
| "dict_update d ((k, v) # other) = dict_update (setitem k v d) other"

text \<open>The statement \<^verbatim>\<open>if v is not None: d[k] = v\<close>.\<close>

definition set_unless_None :: "string \<Rightarrow> json \<Rightarrow> dict \<Rightarrow> dict" where
  "set_unless_None k v d = (if v \<noteq> JNull then setitem k v d else d)"

section \<open>Requests and responses\<close>

text \<open>
  \<^verbatim>\<open>Request\<close> and \<^verbatim>\<open>Response\<close> live in other modules of the package; the wrapper only
  fills the keyword arguments of the first and reads three attributes of the second.
  A keyword argument that a call does not pass is \<open>None\<close>. The keyword \<^verbatim>\<open>write\<close>
  is the field \<open>write'\<close>.
\<close>

record request =
  "method" :: string
  endpoint :: string
  data :: "dict option"
  params :: "dict option"
  command :: "string option"
  read :: json
  write' :: json

record response =
  is_success :: bool
  error_code :: "int option"
  body :: json

section \<open>AQL.execute: the payload\<close>

record execute_args =
  query :: json
  count :: json
  batch_size :: json
  ttl :: json
  bind_vars :: json
  full_count :: json
  max_plans :: json
  optimizer_rules :: json
  cache :: json
  memory_limit :: json
  fail_on_warning :: json
  profile :: json
  max_transaction_size :: json
  max_warning_count :: json
  intermediate_commit_count :: json
  intermediate_commit_size :: json
  satellite_sync_wait :: json
  read_collections :: json
  write_collections :: json

text \<open>The keyword defaults of the signature: everything unset but \<^verbatim>\<open>count=False\<close>
  and \<^verbatim>\<open>memory_limit=0\<close>.\<close>

definition execute_defaults :: "json \<Rightarrow> execute_args" where
  "execute_defaults q =
     \<lparr> query = q, count = JBool False, batch_size = JNull, ttl = JNull, bind_vars = JNull,
       full_count = JNull, max_plans = JNull, optimizer_rules = JNull, cache = JNull,
       memory_limit = JInt 0, fail_on_warning = JNull, profile = JNull,
       max_transaction_size = JNull, max_warning_count = JNull,
       intermediate_commit_count = JNull, intermediate_commit_size = JNull,
       satellite_sync_wait = JNull, read_collections = JNull, write_collections = JNull \<rparr>"

text \<open>Lines 247 to 257: the top-level fields.\<close>

definition execute_toplevel :: "execute_args \<Rightarrow> dict" where
  "execute_toplevel a =
     (let data = [(''query'', query a), (''count'', count a)];
          data = set_unless_None ''batchSize'' (batch_size a) data;
          data = set_unless_None ''ttl'' (ttl a) data;
          data = set_unless_None ''bindVars'' (bind_vars a) data;
          data = set_unless_None ''cache'' (cache a) data;
          data = set_unless_None ''memoryLimit'' (memory_limit a) data
      in data)"

text \<open>Lines 259 to 279: the options dictionary.\<close>

definition execute_options :: "execute_args \<Rightarrow> dict" where
  "execute_options a =
     (let options = [];
          options = set_unless_None ''fullCount'' (full_count a) options;
          options = set_unless_None ''maxNumberOfPlans'' (max_plans a) options;
          options = (if optimizer_rules a \<noteq> JNull
                     then setitem ''optimizer'' (JObj [(''rules'', optimizer_rules a)]) options
                     else options);
          options = set_unless_None ''failOnWarning'' (fail_on_warning a) options;
          options = set_unless_None ''profile'' (profile a) options;
          options = set_unless_None ''maxTransactionSize'' (max_transaction_size a) options;
          options = set_unless_None ''maxWarningCount'' (max_warning_count a) options;
          options = set_unless_None ''intermediateCommitCount''
                      (intermediate_commit_count a) options;
          options = set_unless_None ''intermediateCommitSize''
                      (intermediate_commit_size a) options;
          options = set_unless_None ''satelliteSyncWait'' (satellite_sync_wait a) options
      in options)"

text \<open>Lines 280 to 282: a non-empty options dictionary is stored under \<^verbatim>\<open>options\<close>,
  and its items are stored in the payload itself in either case.\<close>

definition execute_data :: "execute_args \<Rightarrow> dict" where
  "execute_data a =
     (let data = execute_toplevel a;
          options = execute_options a;
          data = (if options \<noteq> [] then setitem ''options'' (JObj options) data else data)
      in dict_update data options)"

section \<open>json.dumps\<close>

text \<open>
  The script of a transaction is put together from \<^verbatim>\<open>json.dumps\<close> of the standard
  library, called with its defaults: items separated by a comma and a space, keys from
  values by a colon and a space, and every character outside the printable ASCII range
  escaped. A character is a code point below 256 here.
\<close>

definition hexdigit :: "nat \<Rightarrow> char" where
  "hexdigit n = ''0123456789abcdef'' ! (n mod 16)"

fun decimal :: "nat \<Rightarrow> string" where
  "decimal n = (if n < 10 then [hexdigit n] else decimal (n div 10) @ [hexdigit (n mod 10)])"

definition escape_char :: "char \<Rightarrow> string" where
  "escape_char c =
     (if c = CHR 0x22 then [CHR 0x5C, CHR 0x22]
      else if c = CHR 0x5C then [CHR 0x5C, CHR 0x5C]
      else if c = CHR 0x0A then [CHR 0x5C, CHR ''n'']
      else if c = CHR 0x0D then [CHR 0x5C, CHR ''r'']
      else if c = CHR 0x09 then [CHR 0x5C, CHR ''t'']
      else if c = CHR 0x08 then [CHR 0x5C, CHR ''b'']
      else if c = CHR 0x0C then [CHR 0x5C, CHR ''f'']
      else if 32 \<le> (of_char c :: nat) \<and> (of_char c :: nat) \<le> 126 then [c]
      else [CHR 0x5C, CHR ''u'', CHR ''0'', CHR ''0'',
            hexdigit (of_char c div 16), hexdigit (of_char c mod 16)])"

definition quoted :: "string \<Rightarrow> string" where
  "quoted s = [CHR 0x22] @ s @ [CHR 0x22]"

definition dumps_str :: "string \<Rightarrow> string" where
  "dumps_str s = quoted (concat (map escape_char s))"

fun dumps :: "json \<Rightarrow> string"
  and dumps_elems :: "json list \<Rightarrow> string"
  and dumps_items :: "(string \<times> json) list \<Rightarrow> string" where
  "dumps JNull = ''null''"
| "dumps (JBool b) = (if b then ''true'' else ''false'')"
| "dumps (JInt i) = (if i < 0 then ''-'' @ decimal (nat (- i)) else decimal (nat i))"
| "dumps (JStr s) = dumps_str s"
| "dumps (JList xs) = ''['' @ dumps_elems xs @ '']''"
| "dumps (JObj kvs) = ''{'' @ dumps_items kvs @ ''}''"
| "dumps_elems [] = []"
| "dumps_elems [x] = dumps x"
| "dumps_elems (x # y # ys) = dumps x @ '', '' @ dumps_elems (y # ys)"
| "dumps_items [] = []"
| "dumps_items [(k, v)] = dumps_str k @ '': '' @ dumps v"
| "dumps_items ((k, v) # kv # kvs) =
     dumps_str k @ '': '' @ dumps v @ '', '' @ dumps_items (kv # kvs)"

section \<open>Reading JSON\<close>

text \<open>
  The other direction, to say what a JSON text stands for: a reader of JSON texts with
  integers for numbers, as \<^verbatim>\<open>json.loads\<close> or the JavaScript engine of the server
  reads them. It is written from the grammar of JSON and shares nothing with
  \<open>dumps\<close>. The first argument of the three recursive readers bounds the depth of
  nesting.
\<close>

definition is_ws :: "char \<Rightarrow> bool" where
  "is_ws c = (c = CHR 0x20 \<or> c = CHR 0x09 \<or> c = CHR 0x0A \<or> c = CHR 0x0D)"

definition skip_ws :: "string \<Rightarrow> string" where
  "skip_ws s = dropWhile is_ws s"

definition is_digit :: "char \<Rightarrow> bool" where
  "is_digit c = (48 \<le> (of_char c :: nat) \<and> (of_char c :: nat) \<le> 57)"

definition digit_val :: "char \<Rightarrow> nat" where
  "digit_val c = of_char c - 48"

definition read_nat :: "string \<Rightarrow> nat \<times> string" where
  "read_nat s =
     (foldl (\<lambda>acc c. 10 * acc + digit_val c) 0 (takeWhile is_digit s), dropWhile is_digit s)"

definition hex_val :: "char \<Rightarrow> nat option" where
  "hex_val c =
     (let n = of_char c :: nat
      in if 48 \<le> n \<and> n \<le> 57 then Some (n - 48)
         else if 97 \<le> n \<and> n \<le> 102 then Some (n - 87)
         else if 65 \<le> n \<and> n \<le> 70 then Some (n - 55)
         else None)"

text \<open>\<^verbatim>\<open>\uXXXX\<close>, for a code point that is a character here.\<close>

definition read_code_point :: "char \<Rightarrow> char \<Rightarrow> char \<Rightarrow> char \<Rightarrow> char option" where
  "read_code_point h1 h2 h3 h4 =
     (case (hex_val h1, hex_val h2, hex_val h3, hex_val h4) of
        (Some a, Some b, Some c, Some d) \<Rightarrow>
          if ((a * 16 + b) * 16 + c) * 16 + d < 256
          then Some (char_of (((a * 16 + b) * 16 + c) * 16 + d))
          else None
      | _ \<Rightarrow> None)"

definition unescape :: "char \<Rightarrow> char option" where
  "unescape e =
     (if e = CHR 0x22 then Some (CHR 0x22)
      else if e = CHR 0x5C then Some (CHR 0x5C)
      else if e = CHR ''/'' then Some (CHR ''/'')
      else if e = CHR ''b'' then Some (CHR 0x08)
      else if e = CHR ''f'' then Some (CHR 0x0C)
      else if e = CHR ''n'' then Some (CHR 0x0A)
      else if e = CHR ''r'' then Some (CHR 0x0D)
      else if e = CHR ''t'' then Some (CHR 0x09)
      else None)"

text \<open>The characters of a string literal after its opening quote, up to the closing
  quote, and the text after it.\<close>

fun read_chars :: "string \<Rightarrow> (string \<times> string) option" where
  "read_chars [] = None"
| "read_chars (c # cs) =
     (if c = CHR 0x22 then Some ([], cs)
      else if c = CHR 0x5C then
        (case cs of
           [] \<Rightarrow> None
         | e # cs' \<Rightarrow>
             if e = CHR ''u'' then
               (case cs' of
                  h1 # h2 # h3 # h4 # cs'' \<Rightarrow>
                    (case read_code_point h1 h2 h3 h4 of
                       None \<Rightarrow> None
                     | Some ch \<Rightarrow>
                         (case read_chars cs'' of
                            None \<Rightarrow> None
                          | Some (s, r) \<Rightarrow> Some (ch # s, r)))
                | _ \<Rightarrow> None)
             else
               (case unescape e of
                  None \<Rightarrow> None
                | Some ch \<Rightarrow>
                    (case read_chars cs' of
                       None \<Rightarrow> None
                     | Some (s, r) \<Rightarrow> Some (ch # s, r))))
      else if (of_char c :: nat) < 32 then None
      else (case read_chars cs of None \<Rightarrow> None | Some (s, r) \<Rightarrow> Some (c # s, r)))"

fun read_value :: "nat \<Rightarrow> string \<Rightarrow> (json \<times> string) option"
  and read_elems :: "nat \<Rightarrow> string \<Rightarrow> (json list \<times> string) option"
  and read_items :: "nat \<Rightarrow> string \<Rightarrow> (dict \<times> string) option" where
  "read_value 0 s = None"
| "read_value (Suc n) s =
     (case skip_ws s of
        [] \<Rightarrow> None
      | c # cs \<Rightarrow>
          if c = CHR ''n'' then
            (if take 3 cs = ''ull'' then Some (JNull, drop 3 cs) else None)
          else if c = CHR ''t'' then
            (if take 3 cs = ''rue'' then Some (JBool True, drop 3 cs) else None)
          else if c = CHR ''f'' then
            (if take 4 cs = ''alse'' then Some (JBool False, drop 4 cs) else None)
          else if c = CHR 0x22 then
            (case read_chars cs of None \<Rightarrow> None | Some (str, r) \<Rightarrow> Some (JStr str, r))
          else if c = CHR ''-'' then
            (case cs of
               [] \<Rightarrow> None
             | d # _ \<Rightarrow>
                 if is_digit d
                 then (case read_nat cs of (m, r) \<Rightarrow> Some (JInt (- int m), r))
                 else None)
          else if is_digit c then
            (case read_nat (c # cs) of (m, r) \<Rightarrow> Some (JInt (int m), r))
          else if c = CHR ''['' then
            (case skip_ws cs of
               [] \<Rightarrow> None
             | c' # cs' \<Rightarrow>
                 if c' = CHR '']'' then Some (JList [], cs')
                 else (case read_elems n cs of
                         None \<Rightarrow> None
                       | Some (xs, r) \<Rightarrow> Some (JList xs, r)))
          else if c = CHR ''{'' then
            (case skip_ws cs of
               [] \<Rightarrow> None
             | c' # cs' \<Rightarrow>
                 if c' = CHR ''}'' then Some (JObj [], cs')
                 else (case read_items n cs of
                         None \<Rightarrow> None
                       | Some (kvs, r) \<Rightarrow> Some (JObj kvs, r)))
          else None)"
| "read_elems 0 s = None"
| "read_elems (Suc n) s =
     (case read_value n s of
        None \<Rightarrow> None
      | Some (x, r) \<Rightarrow>
          (case skip_ws r of
             [] \<Rightarrow> None
           | c # r' \<Rightarrow>
               if c = CHR '']'' then Some ([x], r')
               else if c = CHR '','' then
                 (case read_elems n r' of
                    None \<Rightarrow> None
                  | Some (xs, r'') \<Rightarrow> Some (x # xs, r''))
               else None))"
| "read_items 0 s = None"
| "read_items (Suc n) s =
     (case skip_ws s of
        [] \<Rightarrow> None
      | q # cs \<Rightarrow>
          if q \<noteq> CHR 0x22 then None
          else
            (case read_chars cs of
               None \<Rightarrow> None
             | Some (k, r) \<Rightarrow>
                 (case skip_ws r of
                    [] \<Rightarrow> None
                  | c # r' \<Rightarrow>
                      if c \<noteq> CHR '':'' then None
                      else
                        (case read_value n r' of
                           None \<Rightarrow> None
                         | Some (v, r'') \<Rightarrow>
                             (case skip_ws r'' of
                                [] \<Rightarrow> None
                              | c' # r3 \<Rightarrow>
                                  if c' = CHR ''}'' then Some ([(k, v)], r3)
                                  else if c' = CHR '','' then
                                    (case read_items n r3 of
                                       None \<Rightarrow> None
                                     | Some (kvs, r4) \<Rightarrow> Some ((k, v) # kvs, r4))
                                  else None)))))"

text \<open>A whole text is one value, with nothing but white space after it.\<close>

definition loads :: "string \<Rightarrow> json option" where
  "loads s =
     (case read_value (length s) s of
        None \<Rightarrow> None
      | Some (v, r) \<Rightarrow> if skip_ws r = [] then Some v else None)"

definition strip_prefix :: "string \<Rightarrow> string \<Rightarrow> string option" where
  "strip_prefix p s = (if take (length p) s = p then Some (drop (length p) s) else None)"

text \<open>The three arguments of a script \<^verbatim>\<open>db._query(q, b, d).toArray()\<close>, read as JSON.\<close>

definition read_script :: "string \<Rightarrow> (json \<times> json \<times> json) option" where
  "read_script s =
     (case strip_prefix ''db._query('' s of
        None \<Rightarrow> None
      | Some r0 \<Rightarrow>
          (case read_value (length s) r0 of
             None \<Rightarrow> None
           | Some (q, r1) \<Rightarrow>
               (case strip_prefix '','' (skip_ws r1) of
                  None \<Rightarrow> None
                | Some r2 \<Rightarrow>
                    (case read_value (length s) r2 of
                       None \<Rightarrow> None
                     | Some (b, r3) \<Rightarrow>
                         (case strip_prefix '','' (skip_ws r3) of
                            None \<Rightarrow> None
                          | Some r4 \<Rightarrow>
                              (case read_value (length s) r4 of
                                 None \<Rightarrow> None
                               | Some (d, r5) \<Rightarrow>
                                   if skip_ws r5 = '').toArray()'' then Some (q, b, d)
                                   else None))))))"



section \<open>AQL.execute: the request\<close>

text \<open>
  \<^verbatim>\<open>self._is_transaction\<close> is a property of the base class \<^verbatim>\<open>APIWrapper\<close>; the request
  depends on it as on an argument. Lines 284 to 297.
\<close>

definition execute_command :: "execute_args \<Rightarrow> dict \<Rightarrow> string" where
  "execute_command a d =
     ''db._query('' @ dumps (query a) @ '', '' @ dumps (bind_vars a) @ '', ''
       @ dumps (JObj d) @ '').toArray()''"

definition execute_request :: "bool \<Rightarrow> execute_args \<Rightarrow> request" where
  "execute_request is_transaction a =
     (let d = execute_data a
      in \<lparr> method = ''post'', endpoint = ''/_api/cursor'', data = Some d, params = None,
           command = (if is_transaction then Some (execute_command a d) else None),
           read = read_collections a, write' = write_collections a \<rparr>)"

section \<open>Exceptions and results\<close>

text \<open>
  A response handler returns a value or raises. The exceptions of \<^verbatim>\<open>arango.exceptions\<close>
  are raised with the response and the request; the others are what Python raises when
  a body does not have the shape that a handler reads.
\<close>

datatype arango_error =
    AQLQueryExplainError
  | AQLQueryValidateError
  | AQLQueryExecuteError
  | AQLQueryListError
  | AQLQueryClearError
  | AQLQueryTrackingGetError
  | AQLQueryKillError
  | AQLQueryTrackingSetError
  | AQLFunctionCreateError
  | AQLFunctionDeleteError
  | AQLFunctionListError
  | AQLCacheEntriesError
  | AQLCacheClearError
  | AQLCacheConfigureError
  | AQLCachePropertiesError

datatype error =
    Raised arango_error response request
  | KeyError string
  | TypeError
  | AttributeError

text \<open>\<open>Cursor b\<close> stands for \<^verbatim>\<open>Cursor(self._conn, b)\<close>, an object of another module.\<close>

datatype result = Value json | Cursor json

text \<open>An outcome that is an exception of \<^verbatim>\<open>arango.exceptions\<close>, of whatever kind.\<close>

definition raised :: "error + 'a \<Rightarrow> bool" where
  "raised r = (case r of Inl (Raised e resp req) \<Rightarrow> True | _ \<Rightarrow> False)"

fun bind :: "error + 'a \<Rightarrow> ('a \<Rightarrow> error + 'b) \<Rightarrow> error + 'b" where
  "bind (Inl e) f = Inl e"
| "bind (Inr x) f = f x"

section \<open>What the handlers do to a body\<close>

fun starts_with :: "string \<Rightarrow> string \<Rightarrow> bool" where
  "starts_with [] s = True"
| "starts_with (c # cs) [] = False"
| "starts_with (c # cs) (x # xs) = (c = x \<and> starts_with cs xs)"

fun substring :: "string \<Rightarrow> string \<Rightarrow> bool" where
  "substring k [] = (k = [])"
| "substring k (x # xs) = (starts_with k (x # xs) \<or> substring k xs)"

text \<open>\<^verbatim>\<open>k in x\<close> for a string \<open>k\<close>.\<close>

fun contains :: "string \<Rightarrow> json \<Rightarrow> error + bool" where
  "contains k (JObj d) = Inr (k \<in> fst ` set d)"
| "contains k (JList xs) = Inr (JStr k \<in> set xs)"
| "contains k (JStr s) = Inr (substring k s)"
| "contains k _ = Inl TypeError"

text \<open>\<^verbatim>\<open>x[k]\<close> for a string \<open>k\<close>.\<close>

fun getitem :: "json \<Rightarrow> string \<Rightarrow> error + json" where
  "getitem (JObj d) k = (case map_of d k of Some v \<Rightarrow> Inr v | None \<Rightarrow> Inl (KeyError k))"
| "getitem _ k = Inl TypeError"

text \<open>\<^verbatim>\<open>x.pop(k, None)\<close>; the result is \<open>x\<close> afterwards.\<close>

fun pop_default :: "string \<Rightarrow> json \<Rightarrow> error + json" where
  "pop_default k (JObj d) = Inr (JObj (delitem k d))"
| "pop_default k (JList xs) = Inl TypeError"
| "pop_default k _ = Inl AttributeError"

text \<open>\<^verbatim>\<open>x.pop(k)\<close>; the result is the value and \<open>x\<close> afterwards.\<close>

fun pop :: "string \<Rightarrow> json \<Rightarrow> error + (json \<times> json)" where
  "pop k (JObj d) =
     (case map_of d k of Some v \<Rightarrow> Inr (v, JObj (delitem k d)) | None \<Rightarrow> Inl (KeyError k))"
| "pop k (JList xs) = Inl TypeError"
| "pop k _ = Inl AttributeError"

text \<open>\<^verbatim>\<open>x[k] = v\<close>; the result is \<open>x\<close> afterwards.\<close>

fun store :: "string \<Rightarrow> json \<Rightarrow> json \<Rightarrow> error + json" where
  "store k v (JObj d) = Inr (JObj (setitem k v d))"
| "store k v _ = Inl TypeError"

text \<open>\<^verbatim>\<open>if old in x: x[new] = x.pop(old)\<close>.\<close>

definition rename :: "string \<Rightarrow> string \<Rightarrow> json \<Rightarrow> error + json" where
  "rename old new x =
     bind (contains old x) (\<lambda>found.
       if found then bind (pop old x) (\<lambda>(v, x'). store new v x') else Inr x)"

text \<open>What \<open>rename\<close> makes of a dictionary.\<close>

definition rename_dict :: "string \<Rightarrow> string \<Rightarrow> dict \<Rightarrow> dict" where
  "rename_dict old new d =
     (case map_of d old of Some v \<Rightarrow> setitem new v (delitem old d) | None \<Rightarrow> d)"

text \<open>The values that \<^verbatim>\<open>for item in x\<close> runs through.\<close>

fun iterate :: "json \<Rightarrow> error + json list" where
  "iterate (JList xs) = Inr xs"
| "iterate (JObj d) = Inr (map (\<lambda>kv. JStr (fst kv)) d)"
| "iterate (JStr s) = Inr (map (\<lambda>c. JStr [c]) s)"
| "iterate _ = Inl TypeError"

text \<open>A loop that changes each item in place: the items of a list are replaced in
  the list; the keys of a dictionary and the characters of a string are not part of
  the iterated object, which stays as it is.\<close>

fun for_each :: "(json \<Rightarrow> error + json) \<Rightarrow> json list \<Rightarrow> error + json list" where
  "for_each f [] = Inr []"
| "for_each f (x # xs) = bind (f x) (\<lambda>x'. bind (for_each f xs) (\<lambda>xs'. Inr (x' # xs')))"

definition for_each_in :: "(json \<Rightarrow> error + json) \<Rightarrow> json \<Rightarrow> error + json" where
  "for_each_in f x =
     bind (iterate x) (\<lambda>items. bind (for_each f items) (\<lambda>items'.
       Inr (case x of JList _ \<Rightarrow> JList items' | _ \<Rightarrow> x)))"

text \<open>Truth of a value, for \<^verbatim>\<open>resp.body or {}\<close>.\<close>

fun truthy :: "json \<Rightarrow> bool" where
  "truthy JNull = False"
| "truthy (JBool b) = b"
| "truthy (JInt i) = (i \<noteq> 0)"
| "truthy (JStr s) = (s \<noteq> [])"
| "truthy (JList xs) = (xs \<noteq> [])"
| "truthy (JObj d) = (d \<noteq> [])"

section \<open>The formatters\<close>

text \<open>\<^verbatim>\<open>AQL._format_tracking\<close>, lines 45 to 65.\<close>

definition format_tracking :: "json \<Rightarrow> error + json" where
  "format_tracking b =
     bind (pop_default ''code'' b) (\<lambda>b.
     bind (pop_default ''error'' b) (\<lambda>b.
     bind (rename ''maxQueryStringLength'' ''max_query_string_length'' b) (\<lambda>b.
     bind (rename ''maxSlowQueries'' ''max_slow_queries'' b) (\<lambda>b.
     bind (rename ''slowQueryThreshold'' ''slow_query_threshold'' b) (\<lambda>b.
     bind (rename ''trackBindVars'' ''track_bind_vars'' b) (\<lambda>b.
     bind (rename ''trackSlowQueries'' ''track_slow_queries'' b) (\<lambda>b.
     Inr b)))))))"

text \<open>\<^verbatim>\<open>AQL._format_queries\<close>, lines 68 to 81.\<close>

definition format_queries :: "json \<Rightarrow> error + json" where
  "format_queries b =
     for_each_in (\<lambda>query.
       bind (rename ''bindVars'' ''bind_vars'' query) (\<lambda>query.
       rename ''runTime'' ''runtime'' query)) b"

section \<open>The response handlers of AQL\<close>

text \<open>Each handler is the inner function \<^verbatim>\<open>response_handler\<close> of its method; the
  request that the method built is the first argument.\<close>

definition explain_handler :: "request \<Rightarrow> response \<Rightarrow> error + result" where
  "explain_handler req resp =
     (if \<not> is_success resp then Inl (Raised AQLQueryExplainError resp req)
      else bind (contains ''plan'' (body resp)) (\<lambda>found.
        if found then bind (getitem (body resp) ''plan'') (\<lambda>v. Inr (Value v))
        else bind (getitem (body resp) ''plans'') (\<lambda>v. Inr (Value v))))"

definition validate_handler :: "request \<Rightarrow> response \<Rightarrow> error + result" where
  "validate_handler req resp =
     (if \<not> is_success resp then Inl (Raised AQLQueryValidateError resp req)
      else bind (pop_default ''code'' (body resp)) (\<lambda>b.
           bind (pop_default ''error'' b) (\<lambda>b.
           bind (rename ''bindVars'' ''bind_vars'' b) (\<lambda>b.
           Inr (Value b)))))"

definition execute_handler :: "request \<Rightarrow> response \<Rightarrow> error + result" where
  "execute_handler req resp =
     (if \<not> is_success resp then Inl (Raised AQLQueryExecuteError resp req)
      else Inr (Cursor (body resp)))"

definition kill_handler :: "request \<Rightarrow> response \<Rightarrow> error + result" where
  "kill_handler req resp =
     (if \<not> is_success resp then Inl (Raised AQLQueryKillError resp req)
      else Inr (Value (JBool True)))"

definition queries_handler :: "request \<Rightarrow> response \<Rightarrow> error + result" where
  "queries_handler req resp =
     (if \<not> is_success resp then Inl (Raised AQLQueryListError resp req)
      else bind (format_queries (body resp)) (\<lambda>b. Inr (Value b)))"

definition slow_queries_handler :: "request \<Rightarrow> response \<Rightarrow> error + result" where
  "slow_queries_handler req resp =
     (if \<not> is_success resp then Inl (Raised AQLQueryListError resp req)
      else bind (format_queries (body resp)) (\<lambda>b. Inr (Value b)))"

definition clear_slow_queries_handler :: "request \<Rightarrow> response \<Rightarrow> error + result" where
  "clear_slow_queries_handler req resp =
     (if \<not> is_success resp then Inl (Raised AQLQueryClearError resp req)
      else Inr (Value (JBool True)))"

definition tracking_handler :: "request \<Rightarrow> response \<Rightarrow> error + result" where
  "tracking_handler req resp =
     (if \<not> is_success resp then Inl (Raised AQLQueryTrackingGetError resp req)
      else bind (format_tracking (body resp)) (\<lambda>b. Inr (Value b)))"

definition set_tracking_handler :: "request \<Rightarrow> response \<Rightarrow> error + result" where
  "set_tracking_handler req resp =
     (if \<not> is_success resp then Inl (Raised AQLQueryTrackingSetError resp req)
      else bind (format_tracking (body resp)) (\<lambda>b. Inr (Value b)))"

definition functions_handler :: "request \<Rightarrow> response \<Rightarrow> error + result" where
  "functions_handler req resp =
     (if \<not> is_success resp then Inl (Raised AQLFunctionListError resp req)
      else let b = (if truthy (body resp) then body resp else JObj [])
           in bind (contains ''result'' b) (\<lambda>found.
                if \<not> found then Inr (Value (JList []))
                else bind (getitem b ''result'') (\<lambda>items.
                     bind (for_each_in (rename ''isDeterministic'' ''is_deterministic'') items)
                       (\<lambda>items. Inr (Value items)))))"

definition create_function_handler :: "request \<Rightarrow> response \<Rightarrow> error + result" where
  "create_function_handler req resp =
     (if \<not> is_success resp then Inl (Raised AQLFunctionCreateError resp req)
      else bind (getitem (body resp) ''isNewlyCreated'') (\<lambda>v.
             Inr (Value (JObj [(''is_new'', v)]))))"

text \<open>Lines 521 to 526; \<^verbatim>\<open>ignore_missing\<close> is the argument of the method.\<close>

definition delete_function_handler :: "bool \<Rightarrow> request \<Rightarrow> response \<Rightarrow> error + result" where
  "delete_function_handler ignore_missing req resp =
     (if error_code resp = Some 1582 \<and> ignore_missing then Inr (Value (JBool False))
      else if \<not> is_success resp then Inl (Raised AQLFunctionDeleteError resp req)
      else bind (getitem (body resp) ''deletedCount'') (\<lambda>v.
             Inr (Value (JObj [(''deleted'', v)]))))"

section \<open>The response handlers of AQLQueryCache\<close>

definition cache_properties_handler :: "request \<Rightarrow> response \<Rightarrow> error + result" where
  "cache_properties_handler req resp =
     (if \<not> is_success resp then Inl (Raised AQLCachePropertiesError resp req)
      else bind (getitem (body resp) ''mode'') (\<lambda>m.
           bind (getitem (body resp) ''maxResults'') (\<lambda>l.
             Inr (Value (JObj [(''mode'', m), (''limit'', l)])))))"

definition cache_configure_handler :: "request \<Rightarrow> response \<Rightarrow> error + result" where
  "cache_configure_handler req resp =
     (if \<not> is_success resp then Inl (Raised AQLCacheConfigureError resp req)
      else bind (getitem (body resp) ''mode'') (\<lambda>m.
           bind (getitem (body resp) ''maxResults'') (\<lambda>l.
             Inr (Value (JObj [(''mode'', m), (''limit'', l)])))))"

definition cache_entries_handler :: "request \<Rightarrow> response \<Rightarrow> error + result" where
  "cache_entries_handler req resp =
     (if \<not> is_success resp then Inl (Raised AQLCacheEntriesError resp req)
      else Inr (Value (body resp)))"

definition cache_clear_handler :: "request \<Rightarrow> response \<Rightarrow> error + result" where
  "cache_clear_handler req resp =
     (if \<not> is_success resp then Inl (Raised AQLCacheClearError resp req)
      else Inr (Value (JBool True)))"

section \<open>The operations and their exceptions\<close>

datatype operation =
    Explain
  | Validate
  | Execute
  | Kill
  | Queries
  | Slow_queries
  | Clear_slow_queries
  | Tracking
  | Set_tracking
  | Functions
  | Create_function
  | Delete_function bool
  | Cache_properties
  | Cache_configure
  | Cache_entries
  | Cache_clear

fun response_handler :: "operation \<Rightarrow> request \<Rightarrow> response \<Rightarrow> error + result" where
  "response_handler Explain = explain_handler"
| "response_handler Validate = validate_handler"
| "response_handler Execute = execute_handler"
| "response_handler Kill = kill_handler"
| "response_handler Queries = queries_handler"
| "response_handler Slow_queries = slow_queries_handler"
| "response_handler Clear_slow_queries = clear_slow_queries_handler"
| "response_handler Tracking = tracking_handler"
| "response_handler Set_tracking = set_tracking_handler"
| "response_handler Functions = functions_handler"
| "response_handler Create_function = create_function_handler"
| "response_handler (Delete_function ignore_missing) = delete_function_handler ignore_missing"
| "response_handler Cache_properties = cache_properties_handler"
| "response_handler Cache_configure = cache_configure_handler"
| "response_handler Cache_entries = cache_entries_handler"
| "response_handler Cache_clear = cache_clear_handler"

text \<open>The exception that the docstring of each method announces.\<close>

fun raises :: "operation \<Rightarrow> arango_error" where
  "raises Explain = AQLQueryExplainError"
| "raises Validate = AQLQueryValidateError"
| "raises Execute = AQLQueryExecuteError"
| "raises Kill = AQLQueryKillError"
| "raises Queries = AQLQueryListError"
| "raises Slow_queries = AQLQueryListError"
| "raises Clear_slow_queries = AQLQueryClearError"
| "raises Tracking = AQLQueryTrackingGetError"
| "raises Set_tracking = AQLQueryTrackingSetError"
| "raises Functions = AQLFunctionListError"
| "raises Create_function = AQLFunctionCreateError"
| "raises (Delete_function ignore_missing) = AQLFunctionDeleteError"
| "raises Cache_properties = AQLCachePropertiesError"
| "raises Cache_configure = AQLCacheConfigureError"
| "raises Cache_entries = AQLCacheEntriesError"
| "raises Cache_clear = AQLCacheClearError"

fun is_delete_function :: "operation \<Rightarrow> bool" where
  "is_delete_function (Delete_function ignore_missing) = True"
| "is_delete_function _ = False"

section \<open>AQL.set_tracking and AQL.delete_function: the requests\<close>

text \<open>Lines 416 to 434. The arguments come in the order of the signature, the fields
  in the order of the body.\<close>

definition set_tracking_data ::
  "json \<Rightarrow> json \<Rightarrow> json \<Rightarrow> json \<Rightarrow> json \<Rightarrow> json \<Rightarrow> dict" where
  "set_tracking_data enabled max_slow_queries slow_query_threshold max_query_string_length
       track_bind_vars track_slow_queries =
     (let d = [];
          d = set_unless_None ''enabled'' enabled d;
          d = set_unless_None ''maxSlowQueries'' max_slow_queries d;
          d = set_unless_None ''maxQueryStringLength'' max_query_string_length d;
          d = set_unless_None ''slowQueryThreshold'' slow_query_threshold d;
          d = set_unless_None ''trackBindVars'' track_bind_vars d;
          d = set_unless_None ''trackSlowQueries'' track_slow_queries d
      in d)"

definition set_tracking_request ::
  "json \<Rightarrow> json \<Rightarrow> json \<Rightarrow> json \<Rightarrow> json \<Rightarrow> json \<Rightarrow> request" where
  "set_tracking_request enabled max_slow_queries slow_query_threshold
       max_query_string_length track_bind_vars track_slow_queries =
     \<lparr> method = ''put'', endpoint = ''/_api/query/properties'',
       data = Some (set_tracking_data enabled max_slow_queries slow_query_threshold
                      max_query_string_length track_bind_vars track_slow_queries),
       params = None, command = None, read = JNull, write' = JNull \<rparr>"

text \<open>Lines 515 to 519, for a function name that is a string.\<close>

definition delete_function_request :: "string \<Rightarrow> json \<Rightarrow> request" where
  "delete_function_request name group' =
     \<lparr> method = ''delete'', endpoint = ''/_api/aqlfunction/'' @ name, data = None,
       params = Some [(''group'', group')], command = None, read = JNull, write' = JNull \<rparr>"

text \<open>Lines 109 to 119.\<close>

definition explain_request :: "json \<Rightarrow> json \<Rightarrow> json \<Rightarrow> json \<Rightarrow> request" where
  "explain_request q all_plans max_plans_arg opt_rules =
     (let options = [(''allPlans'', all_plans)];
          options = set_unless_None ''maxNumberOfPlans'' max_plans_arg options;
          options = (if opt_rules \<noteq> JNull
                     then setitem ''optimizer'' (JObj [(''rules'', opt_rules)]) options
                     else options)
      in \<lparr> method = ''post'', endpoint = ''/_api/explain'',
           data = Some [(''query'', q), (''options'', JObj options)],
           params = None, command = None, read = JNull, write' = JNull \<rparr>)"

section \<open>A tracking body sent back\<close>

text \<open>
  The normalised properties are passed to \<^verbatim>\<open>set_tracking\<close> by keyword
  (\<^verbatim>\<open>set_tracking(**props)\<close>): a keyword that the dictionary lacks keeps its
  default \<open>None\<close>, and a key that is no parameter of the method is a \<^verbatim>\<open>TypeError\<close>.
  The result is the payload of the request.
\<close>

definition set_tracking_parameters :: "string set" where
  "set_tracking_parameters =
     {''enabled'', ''max_slow_queries'', ''slow_query_threshold'',
      ''max_query_string_length'', ''track_bind_vars'', ''track_slow_queries''}"

definition keyword :: "dict \<Rightarrow> string \<Rightarrow> json" where
  "keyword d k = (case map_of d k of Some v \<Rightarrow> v | None \<Rightarrow> JNull)"

definition tracking_roundtrip :: "dict \<Rightarrow> error + dict" where
  "tracking_roundtrip b =
     bind (format_tracking (JObj b)) (\<lambda>n.
       case n of
         JObj props \<Rightarrow>
           if fst ` set props \<subseteq> set_tracking_parameters
           then Inr (set_tracking_data (keyword props ''enabled'')
                  (keyword props ''max_slow_queries'')
                  (keyword props ''slow_query_threshold'')
                  (keyword props ''max_query_string_length'')
                  (keyword props ''track_bind_vars'')
                  (keyword props ''track_slow_queries''))
           else Inl TypeError
       | _ \<Rightarrow> Inl TypeError)"

definition tracking_wire_keys :: "string set" where
  "tracking_wire_keys =
     {''enabled'', ''maxQueryStringLength'', ''maxSlowQueries'', ''slowQueryThreshold'',
      ''trackBindVars'', ''trackSlowQueries''}"

section \<open>Dictionaries as maps\<close>

lemma map_of_setitem: "map_of (setitem k v d) = (map_of d)(k \<mapsto> v)"
  by (induction d) auto

lemma map_of_delitem: "map_of (delitem k d) = (map_of d)(k := None)"
  by (induction d) auto

lemma map_of_set_unless_None:
  "map_of (set_unless_None k v d) k' =
     (if k' = k \<and> v \<noteq> JNull then Some v else map_of d k')"
  by (simp add: set_unless_None_def map_of_setitem)

lemma map_of_dict_update_notin:
  "k \<notin> fst ` set other \<Longrightarrow> map_of (dict_update d other) k = map_of d k"
  by (induction d other rule: dict_update.induct) (auto simp: map_of_setitem)

lemma map_of_dict_update_in:
  "distinct (map fst other) \<Longrightarrow> map_of other k = Some v \<Longrightarrow>
     map_of (dict_update d other) k = Some v"
proof (induction d other rule: dict_update.induct)
  case (1 d)
  then show ?case by simp
next
  case (2 d k' v' other)
  show ?case
  proof (cases "k = k'")
    case True
    with 2 have "k \<notin> fst ` set other" and "v' = v" by auto
    then show ?thesis using True
      by (simp add: map_of_dict_update_notin map_of_setitem)
  next
    case False
    with 2 show ?thesis by simp
  qed
qed

lemma keys_setitem: "fst ` set (setitem k v d) = insert k (fst ` set d)"
proof -
  have "dom (map_of (setitem k v d)) = insert k (dom (map_of d))"
    by (simp add: map_of_setitem)
  then show ?thesis by (simp add: dom_map_of_conv_image_fst)
qed

lemma distinct_setitem: "distinct (map fst d) \<Longrightarrow> distinct (map fst (setitem k v d))"
  by (induction d) (auto simp: keys_setitem)

lemma distinct_set_unless_None:
  "distinct (map fst d) \<Longrightarrow> distinct (map fst (set_unless_None k v d))"
  by (simp add: set_unless_None_def distinct_setitem)

lemma absent_iff: "(k \<notin> fst ` set d) = (map_of d k = None)"
  by (simp add: map_of_eq_None_iff)

lemma map_of_dict_update:
  "distinct (map fst other) \<Longrightarrow> map_of (dict_update d other) k =
     (case map_of other k of Some v \<Rightarrow> Some v | None \<Rightarrow> map_of d k)"
proof (cases "map_of other k")
  case None
  then have "k \<notin> fst ` set other" by (simp add: map_of_eq_None_iff)
  then show ?thesis using None by (simp add: map_of_dict_update_notin)
next
  case (Some v)
  assume "distinct (map fst other)"
  then show ?thesis using Some by (simp add: map_of_dict_update_in)
qed

section \<open>The payload of execute, key by key\<close>

lemma execute_toplevel_lookup:
  "map_of (execute_toplevel a) k =
     (if k = ''memoryLimit'' \<and> memory_limit a \<noteq> JNull then Some (memory_limit a)
      else if k = ''cache'' \<and> cache a \<noteq> JNull then Some (cache a)
      else if k = ''bindVars'' \<and> bind_vars a \<noteq> JNull then Some (bind_vars a)
      else if k = ''ttl'' \<and> ttl a \<noteq> JNull then Some (ttl a)
      else if k = ''batchSize'' \<and> batch_size a \<noteq> JNull then Some (batch_size a)
      else if k = ''query'' then Some (query a)
      else if k = ''count'' then Some (count a)
      else None)"
  by (simp add: execute_toplevel_def Let_def map_of_set_unless_None)

lemma execute_options_lookup:
  "map_of (execute_options a) k =
     (if k = ''satelliteSyncWait'' \<and> satellite_sync_wait a \<noteq> JNull
        then Some (satellite_sync_wait a)
      else if k = ''intermediateCommitSize'' \<and> intermediate_commit_size a \<noteq> JNull
        then Some (intermediate_commit_size a)
      else if k = ''intermediateCommitCount'' \<and> intermediate_commit_count a \<noteq> JNull
        then Some (intermediate_commit_count a)
      else if k = ''maxWarningCount'' \<and> max_warning_count a \<noteq> JNull
        then Some (max_warning_count a)
      else if k = ''maxTransactionSize'' \<and> max_transaction_size a \<noteq> JNull
        then Some (max_transaction_size a)
      else if k = ''profile'' \<and> profile a \<noteq> JNull then Some (profile a)
      else if k = ''failOnWarning'' \<and> fail_on_warning a \<noteq> JNull
        then Some (fail_on_warning a)
      else if k = ''optimizer'' \<and> optimizer_rules a \<noteq> JNull
        then Some (JObj [(''rules'', optimizer_rules a)])
      else if k = ''maxNumberOfPlans'' \<and> max_plans a \<noteq> JNull then Some (max_plans a)
      else if k = ''fullCount'' \<and> full_count a \<noteq> JNull then Some (full_count a)
      else None)"
  by (simp add: execute_options_def Let_def map_of_set_unless_None map_of_setitem)

lemma distinct_execute_options: "distinct (map fst (execute_options a))"
  by (simp add: execute_options_def Let_def distinct_set_unless_None distinct_setitem)

lemma execute_data_lookup:
  "map_of (execute_data a) k =
     (case map_of (execute_options a) k of
        Some v \<Rightarrow> Some v
      | None \<Rightarrow>
          if k = ''options'' \<and> execute_options a \<noteq> [] then Some (JObj (execute_options a))
          else map_of (execute_toplevel a) k)"
  by (simp add: execute_data_def Let_def map_of_dict_update distinct_execute_options
      map_of_setitem split: option.splits)

lemma execute_options_empty_iff:
  "(execute_options a = []) =
     (full_count a = JNull \<and> max_plans a = JNull \<and> optimizer_rules a = JNull \<and>
      fail_on_warning a = JNull \<and> profile a = JNull \<and> max_transaction_size a = JNull \<and>
      max_warning_count a = JNull \<and> intermediate_commit_count a = JNull \<and>
      intermediate_commit_size a = JNull \<and> satellite_sync_wait a = JNull)"
    (is "?L = ?R")
proof
  assume ?L
  then have none: "map_of (execute_options a) k = None" for k by simp
  show ?R
    using none [of "''fullCount''"] none [of "''maxNumberOfPlans''"] none [of "''optimizer''"]
      none [of "''failOnWarning''"] none [of "''profile''"] none [of "''maxTransactionSize''"]
      none [of "''maxWarningCount''"] none [of "''intermediateCommitCount''"]
      none [of "''intermediateCommitSize''"] none [of "''satelliteSyncWait''"]
    by (simp add: execute_options_lookup split: if_splits)
next
  assume ?R
  then have "map_of (execute_options a) = Map.empty"
    by (intro ext) (simp add: execute_options_lookup)
  then show ?L by simp
qed

lemma execute_request_data: "data (execute_request tx a) = Some (execute_data a)"
  by (simp add: execute_request_def Let_def)

section \<open>The memory limit\<close>

text \<open>
  Claim C10. The payload that \<^verbatim>\<open>AQL.execute\<close> sends has the key \<^verbatim>\<open>memoryLimit\<close>
  exactly when the argument \<^verbatim>\<open>memory_limit\<close> is not \<open>None\<close>: passing \<open>None\<close> leaves the
  key out, any other value is stored as it is, and the stored value is 0 only when the
  argument is 0 (the default, or a 0 that the caller passes).
\<close>

theorem execute_memoryLimit_iff:
  "data (execute_request tx a) = Some (execute_data a) \<and>
   (''memoryLimit'' \<in> fst ` set (execute_data a)) = (memory_limit a \<noteq> JNull) \<and>
   map_of (execute_data a) ''memoryLimit'' =
     (if memory_limit a = JNull then None else Some (memory_limit a)) \<and>
   (map_of (execute_data a) ''memoryLimit'' = Some (JInt 0)) = (memory_limit a = JInt 0)"
proof -
  have l: "map_of (execute_data a) ''memoryLimit'' =
     (if memory_limit a = JNull then None else Some (memory_limit a))"
    by (simp add: execute_data_lookup execute_options_lookup execute_toplevel_lookup)
  have "(''memoryLimit'' \<notin> fst ` set (execute_data a)) = (memory_limit a = JNull)"
    unfolding absent_iff l by simp
  then show ?thesis using l by (auto simp: execute_request_def Let_def)
qed

theorem execute_memoryLimit_iff_witness:
  "''memoryLimit'' \<notin> fst ` set (execute_data
      (execute_defaults (JStr ''RETURN 1'')\<lparr>memory_limit := JNull\<rparr>)) \<and>
   map_of (execute_data (execute_defaults (JStr ''RETURN 1''))) ''memoryLimit''
     = Some (JInt 0)"
  using execute_memoryLimit_iff [of True
      "execute_defaults (JStr ''RETURN 1'')\<lparr>memory_limit := JNull\<rparr>"]
    execute_memoryLimit_iff [of True "execute_defaults (JStr ''RETURN 1'')"]
  by (simp add: execute_defaults_def)

section \<open>Unset parameters\<close>

text \<open>
  Claim C1. In the payload of \<^verbatim>\<open>AQL.execute\<close>, a parameter among \<^verbatim>\<open>batch_size\<close>,
  \<^verbatim>\<open>ttl\<close>, \<^verbatim>\<open>bind_vars\<close>, \<^verbatim>\<open>cache\<close> and the ten option parameters that is left
  unset (\<open>None\<close>) has no key: neither in the payload itself nor, for an option, in the
  dictionary stored under \<^verbatim>\<open>options\<close> (which, when present, is the options
  dictionary). The memory limit is the exception: left at its default 0, the payload
  has \<^verbatim>\<open>memoryLimit\<close> with the value 0.
\<close>

theorem execute_unset_absent:
  "data (execute_request tx a) = Some (execute_data a) \<and>
   map_of (execute_data a) ''options'' =
     (if execute_options a = [] then None else Some (JObj (execute_options a))) \<and>
   (batch_size a = JNull \<longrightarrow> ''batchSize'' \<notin> fst ` set (execute_data a)) \<and>
   (ttl a = JNull \<longrightarrow> ''ttl'' \<notin> fst ` set (execute_data a)) \<and>
   (bind_vars a = JNull \<longrightarrow> ''bindVars'' \<notin> fst ` set (execute_data a)) \<and>
   (cache a = JNull \<longrightarrow> ''cache'' \<notin> fst ` set (execute_data a)) \<and>
   (full_count a = JNull \<longrightarrow>
      ''fullCount'' \<notin> fst ` set (execute_data a) \<and>
      ''fullCount'' \<notin> fst ` set (execute_options a)) \<and>
   (max_plans a = JNull \<longrightarrow>
      ''maxNumberOfPlans'' \<notin> fst ` set (execute_data a) \<and>
      ''maxNumberOfPlans'' \<notin> fst ` set (execute_options a)) \<and>
   (optimizer_rules a = JNull \<longrightarrow>
      ''optimizer'' \<notin> fst ` set (execute_data a) \<and>
      ''optimizer'' \<notin> fst ` set (execute_options a)) \<and>
   (fail_on_warning a = JNull \<longrightarrow>
      ''failOnWarning'' \<notin> fst ` set (execute_data a) \<and>
      ''failOnWarning'' \<notin> fst ` set (execute_options a)) \<and>
   (profile a = JNull \<longrightarrow>
      ''profile'' \<notin> fst ` set (execute_data a) \<and>
      ''profile'' \<notin> fst ` set (execute_options a)) \<and>
   (max_transaction_size a = JNull \<longrightarrow>
      ''maxTransactionSize'' \<notin> fst ` set (execute_data a) \<and>
      ''maxTransactionSize'' \<notin> fst ` set (execute_options a)) \<and>
   (max_warning_count a = JNull \<longrightarrow>
      ''maxWarningCount'' \<notin> fst ` set (execute_data a) \<and>
      ''maxWarningCount'' \<notin> fst ` set (execute_options a)) \<and>
   (intermediate_commit_count a = JNull \<longrightarrow>
      ''intermediateCommitCount'' \<notin> fst ` set (execute_data a) \<and>
      ''intermediateCommitCount'' \<notin> fst ` set (execute_options a)) \<and>
   (intermediate_commit_size a = JNull \<longrightarrow>
      ''intermediateCommitSize'' \<notin> fst ` set (execute_data a) \<and>
      ''intermediateCommitSize'' \<notin> fst ` set (execute_options a)) \<and>
   (satellite_sync_wait a = JNull \<longrightarrow>
      ''satelliteSyncWait'' \<notin> fst ` set (execute_data a) \<and>
      ''satelliteSyncWait'' \<notin> fst ` set (execute_options a)) \<and>
   (memory_limit a = JInt 0 \<longrightarrow> map_of (execute_data a) ''memoryLimit'' = Some (JInt 0))"
  unfolding absent_iff
  by (simp add: execute_request_data execute_data_lookup execute_options_lookup
      execute_toplevel_lookup)

theorem execute_unset_absent_witness:
  "fst ` set (execute_data (execute_defaults (JStr ''RETURN 1''))) =
     {''query'', ''count'', ''memoryLimit''} \<and>
   map_of (execute_data (execute_defaults (JStr ''RETURN 1''))) ''memoryLimit''
     = Some (JInt 0) \<and>
   ''batchSize'' \<notin> fst ` set (execute_data (execute_defaults (JStr ''RETURN 1''))) \<and>
   ''fullCount'' \<notin> fst ` set (execute_data (execute_defaults (JStr ''RETURN 1'')))"
  using execute_unset_absent [of True "execute_defaults (JStr ''RETURN 1'')"]
  by (simp add: execute_defaults_def execute_data_def execute_toplevel_def
      execute_options_def set_unless_None_def Let_def insert_commute)

section \<open>Options, nested and flat\<close>

text \<open>
  Claim C3. When at least one of the ten option parameters of \<^verbatim>\<open>AQL.execute\<close> is
  given, the payload has the options dictionary under the key \<^verbatim>\<open>options\<close> and
  every item of that dictionary again at the top level; each given parameter is an item
  of the dictionary. When none is given, the payload has no key \<^verbatim>\<open>options\<close>.
\<close>

theorem execute_options_nested_and_flat:
  "(if full_count a = JNull \<and> max_plans a = JNull \<and> optimizer_rules a = JNull \<and>
       fail_on_warning a = JNull \<and> profile a = JNull \<and> max_transaction_size a = JNull \<and>
       max_warning_count a = JNull \<and> intermediate_commit_count a = JNull \<and>
       intermediate_commit_size a = JNull \<and> satellite_sync_wait a = JNull
    then ''options'' \<notin> fst ` set (execute_data a)
    else map_of (execute_data a) ''options'' = Some (JObj (execute_options a)) \<and>
         (\<forall>k v. map_of (execute_options a) k = Some v \<longrightarrow>
                map_of (execute_data a) k = Some v)) \<and>
   (full_count a \<noteq> JNull \<longrightarrow>
      map_of (execute_options a) ''fullCount'' = Some (full_count a)) \<and>
   (max_plans a \<noteq> JNull \<longrightarrow>
      map_of (execute_options a) ''maxNumberOfPlans'' = Some (max_plans a)) \<and>
   (optimizer_rules a \<noteq> JNull \<longrightarrow>
      map_of (execute_options a) ''optimizer''
        = Some (JObj [(''rules'', optimizer_rules a)])) \<and>
   (fail_on_warning a \<noteq> JNull \<longrightarrow>
      map_of (execute_options a) ''failOnWarning'' = Some (fail_on_warning a)) \<and>
   (profile a \<noteq> JNull \<longrightarrow>
      map_of (execute_options a) ''profile'' = Some (profile a)) \<and>
   (max_transaction_size a \<noteq> JNull \<longrightarrow>
      map_of (execute_options a) ''maxTransactionSize'' = Some (max_transaction_size a)) \<and>
   (max_warning_count a \<noteq> JNull \<longrightarrow>
      map_of (execute_options a) ''maxWarningCount'' = Some (max_warning_count a)) \<and>
   (intermediate_commit_count a \<noteq> JNull \<longrightarrow>
      map_of (execute_options a) ''intermediateCommitCount''
        = Some (intermediate_commit_count a)) \<and>
   (intermediate_commit_size a \<noteq> JNull \<longrightarrow>
      map_of (execute_options a) ''intermediateCommitSize''
        = Some (intermediate_commit_size a)) \<and>
   (satellite_sync_wait a \<noteq> JNull \<longrightarrow>
      map_of (execute_options a) ''satelliteSyncWait'' = Some (satellite_sync_wait a)) \<and>
   data (execute_request tx a) = Some (execute_data a)"
proof -
  have flat: "map_of (execute_data a) k = Some v" if "map_of (execute_options a) k = Some v"
    for k v using that by (simp add: execute_data_lookup)
  have nested: "map_of (execute_data a) ''options'' =
      (if execute_options a = [] then None else Some (JObj (execute_options a)))"
    by (simp add: execute_data_lookup execute_options_lookup execute_toplevel_lookup)
  have first: "if execute_options a = [] then ''options'' \<notin> fst ` set (execute_data a)
    else map_of (execute_data a) ''options'' = Some (JObj (execute_options a)) \<and>
         (\<forall>k v. map_of (execute_options a) k = Some v \<longrightarrow>
                map_of (execute_data a) k = Some v)"
    unfolding absent_iff using flat nested by simp
  have rest: "(full_count a \<noteq> JNull \<longrightarrow>
      map_of (execute_options a) ''fullCount'' = Some (full_count a)) \<and>
   (max_plans a \<noteq> JNull \<longrightarrow>
      map_of (execute_options a) ''maxNumberOfPlans'' = Some (max_plans a)) \<and>
   (optimizer_rules a \<noteq> JNull \<longrightarrow>
      map_of (execute_options a) ''optimizer''
        = Some (JObj [(''rules'', optimizer_rules a)])) \<and>
   (fail_on_warning a \<noteq> JNull \<longrightarrow>
      map_of (execute_options a) ''failOnWarning'' = Some (fail_on_warning a)) \<and>
   (profile a \<noteq> JNull \<longrightarrow>
      map_of (execute_options a) ''profile'' = Some (profile a)) \<and>
   (max_transaction_size a \<noteq> JNull \<longrightarrow>
      map_of (execute_options a) ''maxTransactionSize'' = Some (max_transaction_size a)) \<and>
   (max_warning_count a \<noteq> JNull \<longrightarrow>
      map_of (execute_options a) ''maxWarningCount'' = Some (max_warning_count a)) \<and>
   (intermediate_commit_count a \<noteq> JNull \<longrightarrow>
      map_of (execute_options a) ''intermediateCommitCount''
        = Some (intermediate_commit_count a)) \<and>
   (intermediate_commit_size a \<noteq> JNull \<longrightarrow>
      map_of (execute_options a) ''intermediateCommitSize''
        = Some (intermediate_commit_size a)) \<and>
   (satellite_sync_wait a \<noteq> JNull \<longrightarrow>
      map_of (execute_options a) ''satelliteSyncWait'' = Some (satellite_sync_wait a))"
    by (simp add: execute_options_lookup)
  show ?thesis
    using first rest unfolding execute_options_empty_iff
    by (simp only: execute_request_data simp_thms)
qed

theorem execute_options_nested_and_flat_witness:
  "map_of (execute_data (execute_defaults (JStr ''RETURN 1'')\<lparr>full_count := JBool True\<rparr>))
      ''options'' = Some (JObj [(''fullCount'', JBool True)]) \<and>
   map_of (execute_data (execute_defaults (JStr ''RETURN 1'')\<lparr>full_count := JBool True\<rparr>))
      ''fullCount'' = Some (JBool True) \<and>
   ''options'' \<notin> fst ` set (execute_data (execute_defaults (JStr ''RETURN 1'')))"
  using execute_options_nested_and_flat
      [of "execute_defaults (JStr ''RETURN 1'')\<lparr>full_count := JBool True\<rparr>" True]
    execute_options_nested_and_flat [of "execute_defaults (JStr ''RETURN 1'')" True]
  by (simp add: execute_defaults_def execute_options_def set_unless_None_def Let_def)

section \<open>What json.dumps writes, read back\<close>

declare decimal.simps [simp del]









































text \<open>The reader at work: a text with white space and escapes; a string with a quote
  or a line feed that is not escaped is no JSON text.\<close>

lemma loads_example:
  "loads ('' [1 , -20,{ '' @ [CHR 0x22, CHR 0x5C, CHR ''u'', CHR ''0'', CHR ''0'', CHR ''4'',
      CHR ''1'', CHR 0x5C, CHR ''n'', CHR 0x22] @ '' : null } ] '')
     = Some (JList [JInt 1, JInt (- 20), JObj [([CHR ''A'', CHR 0x0A], JNull)]])"
  by code_simp

lemma loads_unescaped_quote:
  "loads ([CHR 0x22] @ ''RETURN '' @ [CHR 0x22] @ ''a'' @ [CHR 0x22, CHR 0x22]) = None"
  by code_simp

lemma loads_raw_newline:
  "loads ([CHR 0x22, CHR 0x0A, CHR 0x22]) = None"
  by code_simp

lemma read_script_example:
  "read_script (''db._query('' @ [CHR 0x22] @ ''RETURN 1'' @ [CHR 0x22] @ '', null, {''
      @ [CHR 0x22] @ ''count'' @ [CHR 0x22] @ '': false}).toArray()'')
     = Some (JStr ''RETURN 1'', JNull, JObj [(''count'', JBool False)])"
  by code_simp

section \<open>The script of a transaction\<close>



section \<open>Handlers never raise a server error on success\<close>

lemma present_iff: "(k \<in> fst ` set d) = (map_of d k \<noteq> None)"
  by (simp add: map_of_eq_None_iff)

lemma raised_Inr: "\<not> raised (Inr x)"
  by (simp add: raised_def)

lemma raised_bind: "raised (bind m f) = (raised m \<or> (\<exists>x. m = Inr x \<and> raised (f x)))"
  by (cases m) (auto simp: raised_def)

lemma not_raised_contains: "\<not> raised (contains k x)"
  by (cases x) (auto simp: raised_def)

lemma not_raised_getitem: "\<not> raised (getitem x k)"
  by (cases x) (auto simp: raised_def split: option.splits)

lemma not_raised_pop_default: "\<not> raised (pop_default k x)"
  by (cases x) (auto simp: raised_def)

lemma not_raised_pop: "\<not> raised (pop k x)"
  by (cases x) (auto simp: raised_def split: option.splits)

lemma not_raised_store: "\<not> raised (store k v x)"
  by (cases x) (auto simp: raised_def)

lemma not_raised_rename: "\<not> raised (rename old new x)"
  by (auto simp: rename_def raised_bind raised_Inr not_raised_contains not_raised_pop
      not_raised_store)

lemma not_raised_iterate: "\<not> raised (iterate x)"
  by (cases x) (auto simp: raised_def)

lemma not_raised_for_each: "(\<And>x. \<not> raised (f x)) \<Longrightarrow> \<not> raised (for_each f xs)"
  by (induction xs) (auto simp: raised_bind raised_Inr)

lemma not_raised_for_each_in: "(\<And>x. \<not> raised (f x)) \<Longrightarrow> \<not> raised (for_each_in f x)"
  by (auto simp: for_each_in_def raised_bind raised_Inr not_raised_iterate
      not_raised_for_each)

lemma not_raised_for_each_in_rename: "\<not> raised (for_each_in (rename old new) x)"
  by (rule not_raised_for_each_in) (rule not_raised_rename)

lemma not_raised_format_tracking: "\<not> raised (format_tracking b)"
  by (auto simp: format_tracking_def raised_bind raised_Inr not_raised_pop_default
      not_raised_rename)

lemma not_raised_format_queries: "\<not> raised (format_queries b)"
  unfolding format_queries_def
  by (rule not_raised_for_each_in) (auto simp: raised_bind not_raised_rename)

lemmas not_raised =
  raised_Inr not_raised_contains not_raised_getitem not_raised_pop_default not_raised_rename
  not_raised_for_each_in_rename not_raised_format_tracking not_raised_format_queries

lemmas handler_defs =
  explain_handler_def validate_handler_def execute_handler_def kill_handler_def
  queries_handler_def slow_queries_handler_def clear_slow_queries_handler_def
  tracking_handler_def set_tracking_handler_def functions_handler_def
  create_function_handler_def cache_properties_handler_def cache_configure_handler_def
  cache_entries_handler_def cache_clear_handler_def

lemma success_not_raised:
  "\<not> is_delete_function op \<Longrightarrow> is_success resp \<Longrightarrow>
     \<not> raised (response_handler op req resp)"
proof (cases op)
  case Functions
  assume "is_success resp"
  then show ?thesis
    unfolding Functions
    by (auto simp: functions_handler_def Let_def raised_bind not_raised)
qed (auto simp: handler_defs raised_bind not_raised)

lemma failure_raises:
  "\<not> is_delete_function op \<Longrightarrow> \<not> is_success resp \<Longrightarrow>
     response_handler op req resp = Inl (Raised (raises op) resp req)"
  by (cases op) (auto simp: handler_defs)

lemma success_ignores_error_code:
  "\<not> is_delete_function op \<Longrightarrow> is_success resp \<Longrightarrow>
     response_handler op req (resp\<lparr>error_code := c\<rparr>) = response_handler op req resp"
  by (cases op) (auto simp: handler_defs cong: if_cong)

section \<open>One exception per operation\<close>

text \<open>
  Claim C8. For every operation of \<^verbatim>\<open>AQL\<close> and \<^verbatim>\<open>AQLQueryCache\<close> other than
  \<^verbatim>\<open>delete_function\<close>, the response handler raises the exception of that operation,
  with the response and the request, exactly when the response is not a success; it
  raises no exception of \<^verbatim>\<open>arango.exceptions\<close> otherwise, and on a success its outcome
  does not depend on the error code of the response. The handler of
  \<^verbatim>\<open>delete_function\<close> does read the error code: with \<^verbatim>\<open>ignore_missing\<close> the code
  1582 gives \<open>False\<close>, where the same failed response without a code raises.
\<close>

theorem handlers_raise_iff_not_success:
  "(\<not> is_delete_function op \<longrightarrow>
      (response_handler op req resp = Inl (Raised (raises op) resp req))
         = (\<not> is_success resp) \<and>
      raised (response_handler op req resp) = (\<not> is_success resp) \<and>
      (is_success resp \<longrightarrow>
         response_handler op req (resp\<lparr>error_code := c\<rparr>) = response_handler op req resp)) \<and>
   response_handler (Delete_function True) req (resp\<lparr>error_code := Some 1582\<rparr>)
     = Inr (Value (JBool False)) \<and>
   response_handler (Delete_function True) req
       (resp\<lparr>is_success := False, error_code := None\<rparr>)
     = Inl (Raised AQLFunctionDeleteError (resp\<lparr>is_success := False, error_code := None\<rparr>)
          req)"
proof -
  have "(response_handler op req resp = Inl (Raised (raises op) resp req))
         = (\<not> is_success resp)" if "\<not> is_delete_function op"
  proof (cases "is_success resp")
    case True
    with that have "\<not> raised (response_handler op req resp)" by (rule success_not_raised)
    then show ?thesis using True by (auto simp: raised_def)
  next
    case False
    with that show ?thesis by (simp add: failure_raises)
  qed
  moreover have "raised (response_handler op req resp) = (\<not> is_success resp)"
    if "\<not> is_delete_function op"
    using that success_not_raised [of op resp req] failure_raises [of op resp req]
    by (cases "is_success resp") (auto simp: raised_def)
  ultimately show ?thesis
    by (simp add: success_ignores_error_code delete_function_handler_def)
qed

theorem handlers_raise_iff_not_success_witness:
  "response_handler Kill (delete_function_request ''ns::fn'' (JBool False))
      \<lparr>is_success = False, error_code = Some 1582, body = JNull\<rparr>
     = Inl (Raised AQLQueryKillError \<lparr>is_success = False, error_code = Some 1582, body = JNull\<rparr>
          (delete_function_request ''ns::fn'' (JBool False))) \<and>
   \<not> raised (response_handler Cache_clear (delete_function_request ''ns::fn'' (JBool False))
      \<lparr>is_success = True, error_code = Some 1582, body = JNull\<rparr>) \<and>
   response_handler Cache_clear (delete_function_request ''ns::fn'' (JBool False))
      \<lparr>is_success = True, error_code = None, body = JNull\<rparr>
     = response_handler Cache_clear (delete_function_request ''ns::fn'' (JBool False))
      \<lparr>is_success = True, error_code = Some 1582, body = JNull\<rparr>"
  using handlers_raise_iff_not_success [of Kill "delete_function_request ''ns::fn'' (JBool False)"
      "\<lparr>is_success = False, error_code = Some 1582, body = JNull\<rparr>" None]
    handlers_raise_iff_not_success [of Cache_clear
      "delete_function_request ''ns::fn'' (JBool False)"
      "\<lparr>is_success = True, error_code = Some 1582, body = JNull\<rparr>" None]
  by simp

section \<open>AQL.delete_function\<close>

text \<open>
  Claim C4. The handler of \<^verbatim>\<open>AQL.delete_function\<close>: a response with the error code
  1582 gives \<open>False\<close> when \<^verbatim>\<open>ignore_missing\<close> is set; any other response that is not
  a success raises \<^verbatim>\<open>AQLFunctionDeleteError\<close>; any other response that is a success
  gives the dictionary with \<^verbatim>\<open>deleted\<close> set to the \<^verbatim>\<open>deletedCount\<close> of the body.
\<close>

theorem delete_function_outcomes:
  "(error_code resp = Some 1582 \<and> ignore_missing \<longrightarrow>
      delete_function_handler ignore_missing req resp = Inr (Value (JBool False))) \<and>
   (\<not> (error_code resp = Some 1582 \<and> ignore_missing) \<and> \<not> is_success resp \<longrightarrow>
      delete_function_handler ignore_missing req resp
        = Inl (Raised AQLFunctionDeleteError resp req)) \<and>
   (\<not> (error_code resp = Some 1582 \<and> ignore_missing) \<and> is_success resp \<and>
    body resp = JObj b \<and> map_of b ''deletedCount'' = Some n \<longrightarrow>
      delete_function_handler ignore_missing req resp
        = Inr (Value (JObj [(''deleted'', n)])))"
  by (simp add: delete_function_handler_def)

theorem delete_function_outcomes_witness:
  "delete_function_handler True (delete_function_request ''ns::fn'' (JBool False))
      \<lparr>is_success = False, error_code = Some 1582, body = JNull\<rparr>
     = Inr (Value (JBool False)) \<and>
   delete_function_handler False (delete_function_request ''ns::fn'' (JBool False))
      \<lparr>is_success = False, error_code = Some 1582, body = JNull\<rparr>
     = Inl (Raised AQLFunctionDeleteError
          \<lparr>is_success = False, error_code = Some 1582, body = JNull\<rparr>
          (delete_function_request ''ns::fn'' (JBool False))) \<and>
   delete_function_handler True (delete_function_request ''ns::fn'' (JBool False))
      \<lparr>is_success = True, error_code = None, body = JObj [(''deletedCount'', JInt 1)]\<rparr>
     = Inr (Value (JObj [(''deleted'', JInt 1)]))"
  using delete_function_outcomes [of "\<lparr>is_success = False, error_code = Some 1582, body = JNull\<rparr>"
      True "delete_function_request ''ns::fn'' (JBool False)" "[]" JNull]
    delete_function_outcomes [of "\<lparr>is_success = False, error_code = Some 1582, body = JNull\<rparr>"
      False "delete_function_request ''ns::fn'' (JBool False)" "[]" JNull]
    delete_function_outcomes [of
      "\<lparr>is_success = True, error_code = None, body = JObj [(''deletedCount'', JInt 1)]\<rparr>"
      True "delete_function_request ''ns::fn'' (JBool False)"
      "[(''deletedCount'', JInt 1)]" "JInt 1"]
  by simp

text \<open>
  Claim C9. In \<^verbatim>\<open>AQL.delete_function\<close> the test of the error code comes before the
  test of success: with \<^verbatim>\<open>ignore_missing\<close> set, a response with the code 1582 gives
  \<open>False\<close> whether it is a success or not, and so never a deleted count.
\<close>

theorem delete_function_code_before_success:
  "error_code resp = Some 1582 \<Longrightarrow>
     delete_function_handler True req resp = Inr (Value (JBool False)) \<and>
     delete_function_handler True req resp \<noteq> Inr (Value (JObj [(''deleted'', n)]))"
  by (simp add: delete_function_handler_def)

theorem delete_function_code_before_success_witness:
  "delete_function_handler True (delete_function_request ''ns::fn'' (JBool False))
      \<lparr>is_success = True, error_code = Some 1582,
        body = JObj [(''deletedCount'', JInt 1)]\<rparr>
     = Inr (Value (JBool False)) \<and>
   delete_function_handler False (delete_function_request ''ns::fn'' (JBool False))
      \<lparr>is_success = True, error_code = Some 1582,
        body = JObj [(''deletedCount'', JInt 1)]\<rparr>
     = Inr (Value (JObj [(''deleted'', JInt 1)]))"
  using delete_function_code_before_success [of
      "\<lparr>is_success = True, error_code = Some 1582,
        body = JObj [(''deletedCount'', JInt 1)]\<rparr>"
      "delete_function_request ''ns::fn'' (JBool False)" "JInt 1"]
  by (simp add: delete_function_handler_def)

section \<open>AQL.explain\<close>

text \<open>
  Claim C7. On a success whose body is a dictionary, the handler of \<^verbatim>\<open>AQL.explain\<close>
  returns the field \<^verbatim>\<open>plan\<close> of the body when the body has it, and the field
  \<^verbatim>\<open>plans\<close> as it is otherwise (a body with neither raises \<^verbatim>\<open>KeyError\<close>). The
  argument \<^verbatim>\<open>all_plans\<close> is part of the request only.
\<close>

theorem explain_returns_plan_or_plans:
  "is_success resp \<Longrightarrow> body resp = JObj b \<Longrightarrow>
     explain_handler req resp =
       (case map_of b ''plan'' of
          Some p \<Rightarrow> Inr (Value p)
        | None \<Rightarrow>
            (case map_of b ''plans'' of
               Some ps \<Rightarrow> Inr (Value ps)
             | None \<Rightarrow> Inl (KeyError ''plans'')))"
  by (simp add: explain_handler_def present_iff split: option.splits)

theorem explain_returns_plan_or_plans_witness:
  "explain_handler (explain_request (JStr ''RETURN 1'') (JBool True) JNull JNull)
      \<lparr>is_success = True, error_code = None,
        body = JObj [(''plans'', JList [JObj [(''rules'', JList [])]])]\<rparr>
     = Inr (Value (JList [JObj [(''rules'', JList [])]])) \<and>
   explain_handler (explain_request (JStr ''RETURN 1'') (JBool False) JNull JNull)
      \<lparr>is_success = True, error_code = None,
        body = JObj [(''plan'', JObj [(''rules'', JList [])])]\<rparr>
     = Inr (Value (JObj [(''rules'', JList [])]))"
  using explain_returns_plan_or_plans [of
      "\<lparr>is_success = True, error_code = None,
        body = JObj [(''plans'', JList [JObj [(''rules'', JList [])]])]\<rparr>"
      "[(''plans'', JList [JObj [(''rules'', JList [])]])]"
      "explain_request (JStr ''RETURN 1'') (JBool True) JNull JNull"]
    explain_returns_plan_or_plans [of
      "\<lparr>is_success = True, error_code = None,
        body = JObj [(''plan'', JObj [(''rules'', JList [])])]\<rparr>"
      "[(''plan'', JObj [(''rules'', JList [])])]"
      "explain_request (JStr ''RETURN 1'') (JBool False) JNull JNull"]
  by simp

section \<open>AQL.set_tracking\<close>

lemma set_tracking_data_lookup:
  "map_of (set_tracking_data en msq sqt mqsl tbv tsq) k =
     (if k = ''trackSlowQueries'' \<and> tsq \<noteq> JNull then Some tsq
      else if k = ''trackBindVars'' \<and> tbv \<noteq> JNull then Some tbv
      else if k = ''slowQueryThreshold'' \<and> sqt \<noteq> JNull then Some sqt
      else if k = ''maxQueryStringLength'' \<and> mqsl \<noteq> JNull then Some mqsl
      else if k = ''maxSlowQueries'' \<and> msq \<noteq> JNull then Some msq
      else if k = ''enabled'' \<and> en \<noteq> JNull then Some en
      else None)"
  by (simp add: set_tracking_data_def Let_def map_of_set_unless_None)

lemma distinct_set_tracking_data:
  "distinct (map fst (set_tracking_data en msq sqt mqsl tbv tsq))"
  by (simp add: set_tracking_data_def Let_def distinct_set_unless_None)

text \<open>
  Claim C6. The payload of \<^verbatim>\<open>AQL.set_tracking\<close> has a key exactly for each argument
  that is given (not \<open>None\<close>), under its wire name and with the value given, and no key
  twice; \<^verbatim>\<open>set_tracking(max_slow_queries=5)\<close> sends the payload with the one item
  \<^verbatim>\<open>maxSlowQueries: 5\<close>.
\<close>

theorem set_tracking_sends_only_provided:
  "data (set_tracking_request en msq sqt mqsl tbv tsq)
     = Some (set_tracking_data en msq sqt mqsl tbv tsq) \<and>
   (k \<in> fst ` set (set_tracking_data en msq sqt mqsl tbv tsq)) =
     (k = ''enabled'' \<and> en \<noteq> JNull \<or> k = ''maxSlowQueries'' \<and> msq \<noteq> JNull \<or>
      k = ''slowQueryThreshold'' \<and> sqt \<noteq> JNull \<or>
      k = ''maxQueryStringLength'' \<and> mqsl \<noteq> JNull \<or>
      k = ''trackBindVars'' \<and> tbv \<noteq> JNull \<or> k = ''trackSlowQueries'' \<and> tsq \<noteq> JNull) \<and>
   (en \<noteq> JNull \<longrightarrow>
      map_of (set_tracking_data en msq sqt mqsl tbv tsq) ''enabled'' = Some en) \<and>
   (msq \<noteq> JNull \<longrightarrow>
      map_of (set_tracking_data en msq sqt mqsl tbv tsq) ''maxSlowQueries'' = Some msq) \<and>
   (sqt \<noteq> JNull \<longrightarrow>
      map_of (set_tracking_data en msq sqt mqsl tbv tsq) ''slowQueryThreshold'' = Some sqt) \<and>
   (mqsl \<noteq> JNull \<longrightarrow>
      map_of (set_tracking_data en msq sqt mqsl tbv tsq) ''maxQueryStringLength''
        = Some mqsl) \<and>
   (tbv \<noteq> JNull \<longrightarrow>
      map_of (set_tracking_data en msq sqt mqsl tbv tsq) ''trackBindVars'' = Some tbv) \<and>
   (tsq \<noteq> JNull \<longrightarrow>
      map_of (set_tracking_data en msq sqt mqsl tbv tsq) ''trackSlowQueries'' = Some tsq) \<and>
   distinct (map fst (set_tracking_data en msq sqt mqsl tbv tsq))"
  unfolding present_iff
  by (simp add: set_tracking_request_def set_tracking_data_lookup distinct_set_tracking_data)

theorem set_tracking_sends_only_provided_witness:
  "data (set_tracking_request JNull (JInt 5) JNull JNull JNull JNull)
     = Some [(''maxSlowQueries'', JInt 5)] \<and>
   map_of (set_tracking_data JNull (JInt 5) JNull JNull JNull JNull) ''maxSlowQueries''
     = Some (JInt 5) \<and>
   ''enabled'' \<notin> fst ` set (set_tracking_data JNull (JInt 5) JNull JNull JNull JNull)"
  using set_tracking_sends_only_provided [of JNull "JInt 5" JNull JNull JNull JNull "''enabled''"]
  by (simp add: set_tracking_data_def set_unless_None_def Let_def)

section \<open>Tracking properties, there and back\<close>

lemma rename_JObj: "rename old new (JObj d) = Inr (JObj (rename_dict old new d))"
  by (simp add: rename_def rename_dict_def present_iff split: option.splits)

lemma format_tracking_JObj:
  "format_tracking (JObj b) =
     Inr (JObj (rename_dict ''trackSlowQueries'' ''track_slow_queries''
           (rename_dict ''trackBindVars'' ''track_bind_vars''
           (rename_dict ''slowQueryThreshold'' ''slow_query_threshold''
           (rename_dict ''maxSlowQueries'' ''max_slow_queries''
           (rename_dict ''maxQueryStringLength'' ''max_query_string_length''
           (delitem ''error'' (delitem ''code'' b))))))))"
  by (simp add: format_tracking_def rename_JObj)

lemma map_of_rename_dict_other:
  "k \<noteq> old \<Longrightarrow> k \<noteq> new \<Longrightarrow> map_of (rename_dict old new d) k = map_of d k"
  by (simp add: rename_dict_def map_of_setitem map_of_delitem split: option.splits)

lemma map_of_rename_dict_new:
  "map_of (rename_dict old new d) new =
     (case map_of d old of Some v \<Rightarrow> Some v | None \<Rightarrow> map_of d new)"
  by (simp add: rename_dict_def map_of_setitem map_of_delitem split: option.splits)

lemma keys_delitem: "fst ` set (delitem k d) = fst ` set d - {k}"
proof -
  have "dom (map_of (delitem k d)) = dom (map_of d) - {k}"
    by (simp add: map_of_delitem)
  then show ?thesis by (simp add: dom_map_of_conv_image_fst)
qed

lemma keys_rename_dict:
  "fst ` set d \<subseteq> K \<Longrightarrow> fst ` set (rename_dict old new d) \<subseteq> insert new (K - {old})"
proof (cases "map_of d old")
  case None
  assume "fst ` set d \<subseteq> K"
  moreover from None have "old \<notin> fst ` set d" by (simp add: absent_iff)
  ultimately show ?thesis using None by (auto simp: rename_dict_def)
next
  case (Some v)
  assume "fst ` set d \<subseteq> K"
  then show ?thesis using Some by (auto simp: rename_dict_def keys_setitem keys_delitem)
qed

lemma map_of_delitem_other: "k \<noteq> k' \<Longrightarrow> map_of (delitem k' d) k = map_of d k"
  by (simp add: map_of_delitem)

lemma keyword_non_null:
  "JNull \<notin> snd ` set b \<Longrightarrow>
     (if keyword b k \<noteq> JNull then Some (keyword b k) else None) = map_of b k"
proof (cases "map_of b k")
  case None
  then show ?thesis by (simp add: keyword_def)
next
  case (Some v)
  assume "JNull \<notin> snd ` set b"
  moreover from Some have "(k, v) \<in> set b" by (rule map_of_SomeD)
  ultimately have "v \<noteq> JNull" by force
  then show ?thesis using Some by (simp add: keyword_def)
qed

lemma wire_cases:
  assumes "k \<in> tracking_wire_keys"
    and "P ''enabled''" and "P ''maxQueryStringLength''" and "P ''maxSlowQueries''"
    and "P ''slowQueryThreshold''" and "P ''trackBindVars''" and "P ''trackSlowQueries''"
  shows "P k"
proof -
  from assms(1) have "k = ''enabled'' \<or> k = ''maxQueryStringLength'' \<or>
      k = ''maxSlowQueries'' \<or> k = ''slowQueryThreshold'' \<or> k = ''trackBindVars'' \<or>
      k = ''trackSlowQueries''"
    by (simp add: tracking_wire_keys_def)
  then show ?thesis using assms(2-) by (elim disjE) (simp_all only:)
qed

text \<open>
  Claim C5, amended. A tracking body whose keys are among the six wire names and none
  of whose values is \<open>None\<close> comes back as it was: formatted by
  \<^verbatim>\<open>_format_tracking\<close> and passed to \<^verbatim>\<open>set_tracking\<close> by keyword, it gives a payload
  with the same value under every key, and with the same items when the body has no key
  twice.
\<close>

theorem tracking_roundtrip_non_null:
  assumes keys: "fst ` set b \<subseteq> tracking_wire_keys"
    and non_null: "JNull \<notin> snd ` set b"
  shows "\<exists>d. tracking_roundtrip b = Inr d \<and> map_of d = map_of b \<and>
           (distinct (map fst b) \<longrightarrow> set d = set b)"
proof -
  define n where "n = rename_dict ''trackSlowQueries'' ''track_slow_queries''
           (rename_dict ''trackBindVars'' ''track_bind_vars''
           (rename_dict ''slowQueryThreshold'' ''slow_query_threshold''
           (rename_dict ''maxSlowQueries'' ''max_slow_queries''
           (rename_dict ''maxQueryStringLength'' ''max_query_string_length''
           (delitem ''error'' (delitem ''code'' b))))))"
  define d where "d = set_tracking_data (keyword n ''enabled'')
                  (keyword n ''max_slow_queries'')
                  (keyword n ''slow_query_threshold'')
                  (keyword n ''max_query_string_length'')
                  (keyword n ''track_bind_vars'')
                  (keyword n ''track_slow_queries'')"
  have "fst ` set (delitem ''error'' (delitem ''code'' b)) \<subseteq> tracking_wire_keys"
    using keys by (auto simp: keys_delitem)
  then have "fst ` set (delitem ''error'' (delitem ''code'' b)) \<subseteq>
      {''enabled'', ''maxQueryStringLength'', ''maxSlowQueries'', ''slowQueryThreshold'',
       ''trackBindVars'', ''trackSlowQueries''}"
    by (simp only: tracking_wire_keys_def)
  from keys_rename_dict [OF this, of "''maxQueryStringLength''" "''max_query_string_length''"]
  have "fst ` set (rename_dict ''maxQueryStringLength'' ''max_query_string_length''
           (delitem ''error'' (delitem ''code'' b))) \<subseteq>
      {''enabled'', ''max_query_string_length'', ''maxSlowQueries'', ''slowQueryThreshold'',
       ''trackBindVars'', ''trackSlowQueries''}"
    by (rule subset_trans) (simp add: insert_Diff_if)
  from keys_rename_dict [OF this, of "''maxSlowQueries''" "''max_slow_queries''"]
  have "fst ` set (rename_dict ''maxSlowQueries'' ''max_slow_queries''
           (rename_dict ''maxQueryStringLength'' ''max_query_string_length''
           (delitem ''error'' (delitem ''code'' b)))) \<subseteq>
      {''enabled'', ''max_query_string_length'', ''max_slow_queries'',
       ''slowQueryThreshold'', ''trackBindVars'', ''trackSlowQueries''}"
    by (rule subset_trans) (simp add: insert_Diff_if)
  from keys_rename_dict [OF this, of "''slowQueryThreshold''" "''slow_query_threshold''"]
  have "fst ` set (rename_dict ''slowQueryThreshold'' ''slow_query_threshold''
           (rename_dict ''maxSlowQueries'' ''max_slow_queries''
           (rename_dict ''maxQueryStringLength'' ''max_query_string_length''
           (delitem ''error'' (delitem ''code'' b))))) \<subseteq>
      {''enabled'', ''max_query_string_length'', ''max_slow_queries'',
       ''slow_query_threshold'', ''trackBindVars'', ''trackSlowQueries''}"
    by (rule subset_trans) (simp add: insert_Diff_if)
  from keys_rename_dict [OF this, of "''trackBindVars''" "''track_bind_vars''"]
  have "fst ` set (rename_dict ''trackBindVars'' ''track_bind_vars''
           (rename_dict ''slowQueryThreshold'' ''slow_query_threshold''
           (rename_dict ''maxSlowQueries'' ''max_slow_queries''
           (rename_dict ''maxQueryStringLength'' ''max_query_string_length''
           (delitem ''error'' (delitem ''code'' b)))))) \<subseteq>
      {''enabled'', ''max_query_string_length'', ''max_slow_queries'',
       ''slow_query_threshold'', ''track_bind_vars'', ''trackSlowQueries''}"
    by (rule subset_trans) (simp add: insert_Diff_if)
  from keys_rename_dict [OF this, of "''trackSlowQueries''" "''track_slow_queries''"]
  have "fst ` set n \<subseteq> set_tracking_parameters"
    unfolding n_def set_tracking_parameters_def
    by (rule subset_trans) (simp add: insert_Diff_if)
  then have run: "tracking_roundtrip b = Inr d"
    by (simp add: tracking_roundtrip_def format_tracking_JObj n_def d_def)
  have absent: "map_of b k = None" if "k \<notin> tracking_wire_keys" for k
    using keys that unfolding absent_iff [symmetric] by blast
  have snake: "map_of b ''max_query_string_length'' = None"
    "map_of b ''max_slow_queries'' = None" "map_of b ''slow_query_threshold'' = None"
    "map_of b ''track_bind_vars'' = None" "map_of b ''track_slow_queries'' = None"
    by (rule absent, simp add: tracking_wire_keys_def)+
  have kw: "keyword n ''enabled'' = keyword b ''enabled''"
    "keyword n ''max_slow_queries'' = keyword b ''maxSlowQueries''"
    "keyword n ''slow_query_threshold'' = keyword b ''slowQueryThreshold''"
    "keyword n ''max_query_string_length'' = keyword b ''maxQueryStringLength''"
    "keyword n ''track_bind_vars'' = keyword b ''trackBindVars''"
    "keyword n ''track_slow_queries'' = keyword b ''trackSlowQueries''"
    unfolding keyword_def n_def
    by (simp_all add: map_of_rename_dict_other map_of_rename_dict_new map_of_delitem_other
        snake split: option.splits)
  have eq: "map_of d k = map_of b k" for k
  proof (cases "k \<in> tracking_wire_keys")
    case True
    have one: "map_of d w = map_of b w"
      if "map_of d w = (if keyword b w \<noteq> JNull then Some (keyword b w) else None)" for w
      using that keyword_non_null [OF non_null, of w] by simp
    show ?thesis
    proof (rule wire_cases [where P = "\<lambda>k. map_of d k = map_of b k", OF True])
      show "map_of d ''enabled'' = map_of b ''enabled''"
        by (rule one) (simp add: d_def kw set_tracking_data_lookup)
      show "map_of d ''maxQueryStringLength'' = map_of b ''maxQueryStringLength''"
        by (rule one) (simp add: d_def kw set_tracking_data_lookup)
      show "map_of d ''maxSlowQueries'' = map_of b ''maxSlowQueries''"
        by (rule one) (simp add: d_def kw set_tracking_data_lookup)
      show "map_of d ''slowQueryThreshold'' = map_of b ''slowQueryThreshold''"
        by (rule one) (simp add: d_def kw set_tracking_data_lookup)
      show "map_of d ''trackBindVars'' = map_of b ''trackBindVars''"
        by (rule one) (simp add: d_def kw set_tracking_data_lookup)
      show "map_of d ''trackSlowQueries'' = map_of b ''trackSlowQueries''"
        by (rule one) (simp add: d_def kw set_tracking_data_lookup)
    qed
  next
    case False
    then have "map_of b k = None" by (rule absent)
    moreover from False have "map_of d k = None"
      unfolding d_def set_tracking_data_lookup tracking_wire_keys_def by simp
    ultimately show ?thesis by simp
  qed
  then have maps: "map_of d = map_of b" by (rule ext)
  have "distinct (map fst d)" unfolding d_def by (rule distinct_set_tracking_data)
  then have "set d = set b" if "distinct (map fst b)"
    using that maps by (simp add: map_of_inject_set)
  with run maps show ?thesis by blast
qed

theorem tracking_roundtrip_non_null_witness:
  "\<exists>d. tracking_roundtrip
      [(''enabled'', JBool True), (''maxQueryStringLength'', JInt 4096),
       (''maxSlowQueries'', JInt 64), (''slowQueryThreshold'', JInt 10),
       (''trackBindVars'', JBool True), (''trackSlowQueries'', JBool False)] = Inr d \<and>
     map_of d = map_of
      [(''enabled'', JBool True), (''maxQueryStringLength'', JInt 4096),
       (''maxSlowQueries'', JInt 64), (''slowQueryThreshold'', JInt 10),
       (''trackBindVars'', JBool True), (''trackSlowQueries'', JBool False)] \<and>
     set d = set
      [(''enabled'', JBool True), (''maxQueryStringLength'', JInt 4096),
       (''maxSlowQueries'', JInt 64), (''slowQueryThreshold'', JInt 10),
       (''trackBindVars'', JBool True), (''trackSlowQueries'', JBool False)]"
  using tracking_roundtrip_non_null [of
      "[(''enabled'', JBool True), (''maxQueryStringLength'', JInt 4096),
       (''maxSlowQueries'', JInt 64), (''slowQueryThreshold'', JInt 10),
       (''trackBindVars'', JBool True), (''trackSlowQueries'', JBool False)]"]
  by (simp add: tracking_wire_keys_def)

text \<open>
  Claim C5 as it is stated asks this of every body with keys among the six wire names.
  A field whose value is \<open>None\<close> does not come back: \<^verbatim>\<open>set_tracking\<close> takes \<open>None\<close> for
  an argument that was not given, and the body \<^verbatim>\<open>{enabled: null}\<close> gives the empty
  payload.
\<close>

theorem tracking_roundtrip_null_counterexample:
  "fst ` set [(''enabled'', JNull)] \<subseteq> tracking_wire_keys \<and>
   tracking_roundtrip [(''enabled'', JNull)] = Inr [] \<and>
   map_of ([] :: dict) ''enabled'' \<noteq> map_of [(''enabled'', JNull)] ''enabled''"
  by (simp add: tracking_wire_keys_def tracking_roundtrip_def format_tracking_def rename_def
      keyword_def set_tracking_data_def set_unless_None_def set_tracking_parameters_def
      Let_def)

end
